theory Spec2Isabelle
  imports Main "HOL-Library.Word"
begin

unbundle bit_operations_syntax

section \<open>Strings and the Go library functions the server calls\<close>

text \<open>
  A Go string is modelled as a \<^typ>\<open>string\<close>, one \<^typ>\<open>char\<close> per byte. Header field
  names are HTTP tokens, hence ASCII, and on ASCII text a rune is a byte: \<open>strings.Map\<close>
  applies its function to each of them in turn.
\<close>

definition strings_Map :: "(char \<Rightarrow> char) \<Rightarrow> string \<Rightarrow> string" where
  "strings_Map mapping s = map mapping s"

text \<open>\<open>strings.Join(elems, sep)\<close>: the elements with \<open>sep\<close> between neighbours.\<close>

fun strings_Join :: "string list \<Rightarrow> string \<Rightarrow> string" where
  "strings_Join [] sep = []"
| "strings_Join [v] sep = v"
| "strings_Join (v # w # vs) sep = v @ sep @ strings_Join (w # vs) sep"

text \<open>
  \<open>strings.LastIndex(s, "/")\<close> for a one-byte separator: the index of its last occurrence,
  \<open>-1\<close> when there is none.
\<close>

definition strings_LastIndex :: "string \<Rightarrow> char \<Rightarrow> int" where
  "strings_LastIndex s c =
     (if c \<in> set s then int (length s) - 1 - int (length (takeWhile (\<lambda>x. x \<noteq> c) (rev s)))
      else - 1)"

text \<open>\<open>strings.HasPrefix(s, prefix)\<close>.\<close>

definition strings_HasPrefix :: "string \<Rightarrow> string \<Rightarrow> bool" where
  "strings_HasPrefix s pre = (take (length pre) s = pre)"

text \<open>\<open>strings.SplitN(s, ":", 2)\<close>: cut at the first separator, if there is one.\<close>

definition strings_SplitN2 :: "string \<Rightarrow> char \<Rightarrow> string list" where
  "strings_SplitN2 s c =
     (if c \<in> set s
      then [takeWhile (\<lambda>x. x \<noteq> c) s, tl (dropWhile (\<lambda>x. x \<noteq> c) s)]
      else [s])"

text \<open>The verb \<open>%d\<close> of \<open>fmt.Sprintf\<close> on an integer: its decimal digits, with a sign.\<close>

fun decimal :: "nat \<Rightarrow> string" where
  "decimal n =
     (if n < 10 then [char_of (48 + n)]
      else decimal (n div 10) @ [char_of (48 + n mod 10)])"

declare decimal.simps [simp del]

definition Sprintf_d :: "int \<Rightarrow> string" where
  "Sprintf_d n = (if n < 0 then CHR ''-'' # decimal (nat (- n)) else decimal (nat n))"

text \<open>
  The process environment is the list \<open>os.Environ()\<close> of \<open>KEY=VALUE\<close> strings;
  \<open>os.Getenv\<close> reads the first entry of a key and gives the empty string for a key that
  is not set.
\<close>

definition env_key :: "string \<Rightarrow> string" where
  "env_key e = takeWhile (\<lambda>c. c \<noteq> CHR ''='') e"

definition env_value :: "string \<Rightarrow> string" where
  "env_value e = tl (dropWhile (\<lambda>c. c \<noteq> CHR ''='') e)"

fun os_Getenv :: "string list \<Rightarrow> string \<Rightarrow> string" where
  "os_Getenv [] key = []"
| "os_Getenv (e # es) key =
     (if CHR ''='' \<in> set e \<and> env_key e = key then env_value e else os_Getenv es key)"

section \<open>Requests\<close>

text \<open>
  The fields of \<open>*http.Request\<close> that the handlers read. \<open>Header\<close> is Go's
  \<open>map[string][]string\<close>; the list gives one order in which \<open>range\<close> may visit it, and
  every theorem below holds for each order. \<open>TLS\<close> is \<open>req.TLS != nil\<close>,
  \<open>URL_RequestURI\<close> the result of \<open>req.URL.RequestURI()\<close>, \<open>URL_Query\<close> that of
  \<open>req.URL.Query()\<close> and \<open>BasicAuth\<close> that of \<open>req.BasicAuth()\<close> (\<open>None\<close> when its
  \<open>ok\<close> is false). \<open>WebSocketRefusal\<close> is the status with which the handshake of
  \<open>golang.org/x/net/websocket\<close> refuses the request, \<open>None\<close> when it accepts it: what the
  library makes of the method and the upgrade headers.
\<close>

record request =
  Method :: string
  Host :: string
  RemoteAddr :: string
  URL_Path :: string
  URL_RawQuery :: string
  URL_RequestURI :: string
  URL_Query :: "(string \<times> string list) list"
  TLS :: bool
  Header :: "(string \<times> string list) list"
  ContentLength :: int
  BasicAuth :: "(string \<times> string) option"
  WebSocketRefusal :: "nat option"

text \<open>
  \<open>Header.Get(key)\<close> and \<open>Values.Get(key)\<close>: the first value stored under the key, the
  empty string when there is none. Every key the handlers ask for is already in canonical
  form.
\<close>

definition Get :: "(string \<times> string list) list \<Rightarrow> string \<Rightarrow> string" where
  "Get h key = (case map_of h key of None \<Rightarrow> [] | Some [] \<Rightarrow> [] | Some (v # _) \<Rightarrow> v)"

section \<open>The CGI environment\<close>

definition upperCaseAndUnderscore :: "char \<Rightarrow> char" where
  "upperCaseAndUnderscore r =
     (if (of_char r :: nat) \<ge> of_char CHR ''a'' \<and> (of_char r :: nat) \<le> of_char CHR ''z''
      then char_of ((of_char r :: nat) - (of_char CHR ''a'' - of_char CHR ''A''))
      else if r = CHR ''-'' then CHR ''_''
      else if r = CHR ''='' then CHR ''_''
      else r)"

definition httpPort :: "string list \<Rightarrow> string" where
  "httpPort environ =
     (let port = os_Getenv environ ''PORT'' in if port \<noteq> [] then port else ''5000'')"

text \<open>One pass of the loop over \<open>req.Header\<close> in \<open>cgiEnv\<close>: the entry it appends.\<close>

definition header_entry :: "string \<Rightarrow> string list \<Rightarrow> string" where
  "header_entry k v =
     (let k' = strings_Map upperCaseAndUnderscore k;
          joinStr = (if k' = ''COOKIE'' then ''; '' else '', '')
      in ''HTTP_'' @ k' @ ''='' @ strings_Join v joinStr)"

fun header_loop :: "string list \<Rightarrow> (string \<times> string list) list \<Rightarrow> string list" where
  "header_loop env [] = env"
| "header_loop env ((k, v) # h) = header_loop (env @ [header_entry k v]) h"

text \<open>The slice literal that \<open>cgiEnv\<close> starts from.\<close>

definition fixed_env :: "string list \<Rightarrow> request \<Rightarrow> string list" where
  "fixed_env environ req =
     [ ''SERVER_SOFTWARE=go'',
       ''SERVER_NAME='' @ Host req,
       ''SERVER_PROTOCOL=HTTP/1.1'',
       ''HTTP_HOST='' @ Host req,
       ''GATEWAY_INTERFACE=CGI/1.1'',
       ''REQUEST_METHOD='' @ Method req,
       ''QUERY_STRING='' @ URL_RawQuery req,
       ''REQUEST_URI='' @ URL_RequestURI req,
       ''PATH_INFO='' @ URL_Path req,
       ''SCRIPT_NAME='' @ URL_Path req,
       ''SCRIPT_FILENAME='' @ URL_Path req,
       ''REMOTE_ADDR='' @ RemoteAddr req,
       ''REMOTE_HOST='' @ RemoteAddr req,
       ''SERVER_PORT='' @ httpPort environ ]"

definition cgiEnv :: "string list \<Rightarrow> request \<Rightarrow> string list" where
  "cgiEnv environ req =
     (let env0 = fixed_env environ req;
          env1 = (if TLS req then env0 @ [''HTTPS=on''] else env0);
          env2 = header_loop env1 (Header req);
          env3 = (if ContentLength req > 0
                  then env2 @ [''CONTENT_LENGTH='' @ Sprintf_d (ContentLength req)]
                  else env2);
          ctype = Get (Header req) ''Content-Type''
      in if ctype \<noteq> [] then env3 @ [''CONTENT_TYPE='' @ ctype] else env3)"

section \<open>File modes\<close>

text \<open>
  \<open>os.FileMode\<close> is a 32-bit word: the nine permission bits at the bottom, and a type
  bit near the top for everything that is not a regular file. The constants are those of
  Go's package \<open>os\<close>; the mask \<open>0110\<close> of \<open>execCmd\<close> is octal, \<open>72\<close> in decimal
  (owner execute \<open>0100\<close> and group execute \<open>0010\<close>), and \<open>0777\<close> is \<open>511\<close>.
\<close>

type_synonym FileMode = "32 word"

definition ModeDir :: FileMode where "ModeDir = 0x80000000"
definition ModeSymlink :: FileMode where "ModeSymlink = 0x08000000"
definition ModeDevice :: FileMode where "ModeDevice = 0x04000000"
definition ModeNamedPipe :: FileMode where "ModeNamedPipe = 0x02000000"
definition ModeSocket :: FileMode where "ModeSocket = 0x01000000"
definition ModeSetuid :: FileMode where "ModeSetuid = 0x00800000"
definition ModeSetgid :: FileMode where "ModeSetgid = 0x00400000"
definition ModeCharDevice :: FileMode where "ModeCharDevice = 0x00200000"
definition ModeSticky :: FileMode where "ModeSticky = 0x00100000"
definition ModeIrregular :: FileMode where "ModeIrregular = 0x00080000"

definition ModeType :: FileMode where
  "ModeType = ModeDir OR ModeSymlink OR ModeNamedPipe OR ModeSocket OR ModeDevice
     OR ModeCharDevice OR ModeIrregular"

definition IsDir :: "FileMode \<Rightarrow> bool" where
  "IsDir m = (m AND ModeDir \<noteq> 0)"

definition IsRegular :: "FileMode \<Rightarrow> bool" where
  "IsRegular m = (m AND ModeType = 0)"

text \<open>
  What \<open>Stat\<close> reports for an opened file: the type of the inode decides the type bits, the
  low twelve bits \<open>p\<close> of \<open>st_mode\<close> give the permissions and the setuid, setgid and sticky
  flags. An opened file is never a symbolic link, so the types are the other six.
\<close>

datatype file_type = Regular | Directory | BlockDevice | CharDevice | NamedPipe | Socket

fun type_bits :: "file_type \<Rightarrow> FileMode" where
  "type_bits Regular = 0"
| "type_bits Directory = ModeDir"
| "type_bits BlockDevice = ModeDevice"
| "type_bits CharDevice = ModeDevice OR ModeCharDevice"
| "type_bits NamedPipe = ModeNamedPipe"
| "type_bits Socket = ModeSocket"

definition fileMode :: "file_type \<Rightarrow> 32 word \<Rightarrow> FileMode" where
  "fileMode t p =
     (p AND 511) OR type_bits t
       OR (if p AND 2048 = 0 then 0 else ModeSetuid)
       OR (if p AND 1024 = 0 then 0 else ModeSetgid)
       OR (if p AND 512 = 0 then 0 else ModeSticky)"

section \<open>The operating system\<close>

text \<open>
  An open file has the name it was opened under (\<open>File.Name()\<close> gives back the argument
  of \<open>os.Open\<close>) and the result of \<open>File.Stat()\<close>, which asks about the opened file
  itself. The handlers see the operating system through \<open>os.Environ\<close>, \<open>os.Getwd\<close> and
  \<open>os.Open\<close>; an \<open>os.Open\<close> that does not return is the value \<open>None\<close>.
\<close>

datatype os_error = ENOENT | ENOTDIR | EACCES | ELOOP | ENXIO | EIO

record os_File =
  file_Name :: string
  file_Stat :: "os_error + FileMode"

record system =
  Environ :: "string list"
  Getwd :: "os_error + string"
  Open :: "string \<Rightarrow> (os_error + os_File) option"

fun split_slash :: "string \<Rightarrow> string list" where
  "split_slash [] = [[]]"
| "split_slash (c # cs) =
     (if c = CHR ''/'' then [] # split_slash cs
      else (case split_slash cs of [] \<Rightarrow> [[c]] | w # ws \<Rightarrow> (c # w) # ws))"

text \<open>
  A file system. A location is the list of names from the root down to a node, and a node
  is an inode with its type and the low twelve bits of its mode, or a symbolic link with
  its target. \<open>denied\<close> says where the kernel refuses the server, for its credentials, to
  search a directory on the way or to read the node that is opened; \<open>writers\<close> says which
  FIFOs some process has open for writing; \<open>cwd\<close> is where a relative name starts.
\<close>

type_synonym location = "string list"

datatype node = Inode file_type "32 word" | Link string

record filesystem =
  nodes :: "location \<Rightarrow> node option"
  denied :: "location \<Rightarrow> bool"
  writers :: "location \<Rightarrow> bool"
  cwd :: location

text \<open>
  Path resolution as \<open>open(2)\<close> without \<open>O_NOFOLLOW\<close> does it, name by name from the
  directory \<open>cur\<close>: empty names and \<open>.\<close> stay, \<open>..\<close> goes up, a symbolic link is replaced by
  its target wherever it stands, the last name included, at most forty times
  (\<open>ELOOP\<close> beyond); a name that is missing gives \<open>ENOENT\<close>, a name that follows something
  other than a directory \<open>ENOTDIR\<close>. The result is the location, type and mode bits of an
  inode, never a link.
\<close>

fun walk ::
  "nat \<Rightarrow> filesystem \<Rightarrow> location \<Rightarrow> string list \<Rightarrow> os_error + location \<times> file_type \<times> 32 word" where
  "walk n fs cur [] =
     (case nodes fs cur of Some (Inode t p) \<Rightarrow> Inr (cur, t, p) | _ \<Rightarrow> Inl ENOENT)"
| "walk n fs cur (c # cs) =
     (if c = [] \<or> c = ''.'' then walk n fs cur cs
      else if c = ''..'' then walk n fs (butlast cur) cs
      else
        (case nodes fs (cur @ [c]) of
           None \<Rightarrow> Inl ENOENT
         | Some (Link target) \<Rightarrow>
             (case n of
                0 \<Rightarrow> Inl ELOOP
              | Suc k \<Rightarrow>
                  if target = [] then Inl ENOENT
                  else walk k fs (if hd target = CHR ''/'' then [] else cur)
                         (split_slash target @ cs))
         | Some (Inode t p) \<Rightarrow>
             if cs = [] then Inr (cur @ [c], t, p)
             else if t \<noteq> Directory then Inl ENOTDIR
             else if denied fs (cur @ [c]) then Inl EACCES
             else walk n fs (cur @ [c]) cs))"

text \<open>
  \<open>os.Open\<close>, that is \<open>open(name, O_RDONLY)\<close>, on such a file system. Once the path is
  resolved, a node the server may not read gives \<open>EACCES\<close>, a socket cannot be opened at
  all (\<open>ENXIO\<close>), and the open of a FIFO does not return before a writer has opened it;
  every other inode is opened, under the name that was asked for. A device is taken to
  open as a file does: what its driver does at the open is outside this description.
\<close>

definition os_Open :: "filesystem \<Rightarrow> string \<Rightarrow> (os_error + os_File) option" where
  "os_Open fs name =
     (if name = [] then Some (Inl ENOENT)
      else
        (case walk 40 fs (if hd name = CHR ''/'' then [] else cwd fs) (split_slash name) of
           Inl err \<Rightarrow> Some (Inl err)
         | Inr (q, t, p) \<Rightarrow>
             if denied fs q then Some (Inl EACCES)
             else if t = Socket then Some (Inl ENXIO)
             else if t = NamedPipe \<and> \<not> writers fs q then None
             else Some (Inr \<lparr>file_Name = name, file_Stat = Inr (fileMode t p)\<rparr>)))"

text \<open>
  \<open>path.Join\<close>: the non-empty elements joined by a slash, then \<open>path.Clean\<close>, which drops
  empty and \<open>.\<close> elements and resolves \<open>..\<close> against the element before it.
\<close>

fun clean_elems :: "bool \<Rightarrow> string list \<Rightarrow> string list \<Rightarrow> string list" where
  "clean_elems rooted acc [] = rev acc"
| "clean_elems rooted acc (c # cs) =
     (if c = [] \<or> c = ''.'' then clean_elems rooted acc cs
      else if c = ''..'' then
        (case acc of
           [] \<Rightarrow> if rooted then clean_elems rooted [] cs else clean_elems rooted [''..''] cs
         | a # as \<Rightarrow>
             if a = ''..'' then clean_elems rooted (c # acc) cs else clean_elems rooted as cs)
      else clean_elems rooted (c # acc) cs)"

definition path_Clean :: "string \<Rightarrow> string" where
  "path_Clean p =
     (if p = [] then ''.''
      else
        (let rooted = (hd p = CHR ''/'');
             body = strings_Join (clean_elems rooted [] (split_slash p)) ''/''
         in if rooted then CHR ''/'' # body else if body = [] then ''.'' else body))"

definition path_Join :: "string list \<Rightarrow> string" where
  "path_Join elems =
     (let es = filter (\<lambda>e. e \<noteq> []) elems
      in if es = [] then [] else path_Clean (strings_Join es ''/''))"

text \<open>
  \<open>strconv.Atoi\<close>: an optional sign and at least one decimal digit, nothing else, and a
  value that fits the 64-bit \<open>int\<close>.
\<close>

definition is_digit :: "char \<Rightarrow> bool" where
  "is_digit c = (48 \<le> (of_char c :: nat) \<and> (of_char c :: nat) \<le> 57)"

definition strconv_Atoi :: "string \<Rightarrow> int option" where
  "strconv_Atoi s =
     (let neg = (s \<noteq> [] \<and> hd s = CHR ''-'');
          ds = (if s \<noteq> [] \<and> (hd s = CHR ''-'' \<or> hd s = CHR ''+'') then tl s else s);
          n = foldl (\<lambda>a c. 10 * a + (of_char c - 48)) (0 :: int) ds;
          v = (if neg then - n else n)
      in if ds = [] \<or> \<not> list_all is_digit ds then None
         else if v < - (2 ^ 63) \<or> 2 ^ 63 - 1 < v then None
         else Some v)"

section \<open>What a handler does\<close>

text \<open>
  A handler ends in one of a few ways: it answers with a status and a body
  (\<open>handleError\<close> sends the JSON of a \<open>stdError\<close>, \<open>http.Error\<close> a line of text), it calls
  \<open>cmd.Run\<close> on a command and only logs the error of that, the server exits (\<open>os.Exit\<close>,
  \<open>log.Fatal\<close>), the handler panics, or the request goes to \<open>handleGet\<close>, which no
  property below is about. Three more ends belong to the special cases: \<open>Unsent\<close> is an
  answer written to a connection that was hijacked before, of which the client receives
  nothing; \<open>Refused\<close> is the status with which the WebSocket library itself turns a
  handshake down, without calling its handler; \<open>Blocked\<close> is a handler that waits in
  \<open>os.Open\<close> and does not return.
\<close>

datatype cause = Errorf string | PathError os_error

record stdError =
  Message :: string
  Cause :: "cause option"

datatype body = JSON stdError | Text string

datatype endpoint = RequestBody | FlushWriterWrapper | WebsocketConn

record Cmd =
  Path :: string
  Dir :: string
  Env :: "string list"
  Stdin :: endpoint
  Stdout :: endpoint
  Stderr :: endpoint

datatype outcome =
    Response nat body
  | Ran Cmd
  | Exit int
  | Fatal
  | Panic
  | HandleGet os_File FileMode
  | Unsent nat body
  | Refused nat
  | Blocked

text \<open>
  Of the \<open>http.ResponseWriter\<close> the handlers need to know whether its dynamic type has
  the method \<open>Flush\<close>, which the type assertion \<open>res.(flushWriter)\<close> of \<open>handlePost\<close>
  demands, and whether its connection has been hijacked. The server hands every handler a
  live writer; \<open>websocket.Handler\<close> hijacks the connection before it calls the function it
  wraps, and from then on \<open>http.Error\<close> on the writer sends nothing.
\<close>

record ResponseWriter =
  is_flushWriter :: bool

datatype writer = Live ResponseWriter | Hijacked ResponseWriter

fun handleError :: "writer \<Rightarrow> cause option \<Rightarrow> nat \<Rightarrow> string \<Rightarrow> outcome" where
  "handleError (Live res) err httpStatus message =
     Response httpStatus (JSON \<lparr>Message = message, Cause = err\<rparr>)"
| "handleError (Hijacked res) err httpStatus message =
     Unsent httpStatus (JSON \<lparr>Message = message, Cause = err\<rparr>)"

section \<open>Running a process\<close>

definition backslash :: char where
  "backslash = CHR 0x5C"

definition PS1 :: string where
  "PS1 = ''PS1='' @ [backslash] @ ''['' @ [backslash] @ ''033[01;34m'' @ [backslash] @ '']''
     @ [backslash] @ ''w'' @ [backslash] @ ''['' @ [backslash] @ ''033[00m'' @ [backslash]
     @ ''] '' @ [backslash] @ ''['' @ [backslash] @ ''033[01;32m'' @ [backslash] @ '']$ ''
     @ [backslash] @ ''['' @ [backslash] @ ''033[00m'' @ [backslash] @ '']''"

text \<open>The last lines of \<open>execCmd\<close>, from \<open>cmd.Env\<close> on, common to its two commands.\<close>

definition run :: "system \<Rightarrow> request \<Rightarrow> endpoint \<Rightarrow> endpoint \<Rightarrow> bool \<Rightarrow> string \<Rightarrow> string \<Rightarrow> outcome" where
  "run sys req inp out interactive name dir =
     (let env = Environ sys @ cgiEnv (Environ sys) req;
          env' = (if interactive then env @ [PS1] else env)
      in Ran \<lparr>Path = name, Dir = dir, Env = env', Stdin = inp, Stdout = out, Stderr = out\<rparr>)"

definition invalid_POST :: string where
  "invalid_POST =
     ''Invalid file type for POST. Only directories and regular executable file are supported''"

text \<open>
  \<open>execCmd\<close>. The slice \<open>path.Name()[0:i]\<close> panics for the \<open>-1\<close> that
  \<open>strings.LastIndex\<close> gives on a name without a separator.
\<close>

definition execCmd ::
  "system \<Rightarrow> writer \<Rightarrow> request \<Rightarrow> os_File \<Rightarrow> FileMode \<Rightarrow> endpoint \<Rightarrow> endpoint \<Rightarrow> bool
     \<Rightarrow> outcome" where
  "execCmd sys res req path pathInfo inp out interactive =
     (if IsDir pathInfo then
        (if interactive then
           (case Getwd sys of
              Inl err \<Rightarrow> Fatal
            | Inr dir \<Rightarrow>
                run sys req inp out interactive
                  (path_Join [dir, ''bin'', ''pseudo-interactive-bash'']) (file_Name path))
         else run sys req inp out interactive ''bash'' (file_Name path))
      else if IsRegular pathInfo \<and> pathInfo AND 72 \<noteq> 0 then
        (let i = strings_LastIndex (file_Name path) CHR ''/''
         in if i < 0 then Panic
            else run sys req inp out interactive (file_Name path) (take (nat i) (file_Name path)))
      else handleError res None 400 invalid_POST)"

section \<open>The stream to the client\<close>

text \<open>
  The interface \<open>flushWriter\<close> as its two methods over the state \<^typ>\<open>'w\<close> of the
  transport; \<open>Write\<close> returns the count and the error of Go's \<open>(int, error)\<close>.
\<close>

record 'w flushWriter =
  Write :: "'w \<Rightarrow> string \<Rightarrow> (nat \<times> string option) \<times> 'w"
  Flush :: "'w \<Rightarrow> 'w"

definition flushWriterWrapper_Write ::
  "'w flushWriter \<Rightarrow> 'w \<Rightarrow> string \<Rightarrow> (nat \<times> string option) \<times> 'w" where
  "flushWriterWrapper_Write fw w p =
     (let (r, w') = Write fw w p;
          w'' = Flush fw w'
      in (r, w''))"

text \<open>
  A transport that records the calls it receives. Whether a write succeeds is up to
  \<open>accepts\<close>; a write that fails reports no byte written.
\<close>

datatype call = WriteCall string | FlushCall

definition recorder :: "(string \<Rightarrow> bool) \<Rightarrow> (call list) flushWriter" where
  "recorder accepts =
     \<lparr>Write = (\<lambda>log p.
         ((if accepts p then (length p, None) else (0, Some ''broken pipe'')),
          log @ [WriteCall p])),
      Flush = (\<lambda>log. log @ [FlushCall])\<rparr>"

text \<open>
  The type assertion \<open>res.(flushWriter)\<close> of \<open>handlePost\<close> has no \<open>ok\<close> result, so it
  panics on a writer without \<open>Flush\<close>.
\<close>

definition handlePost ::
  "system \<Rightarrow> ResponseWriter \<Rightarrow> request \<Rightarrow> os_File \<Rightarrow> FileMode \<Rightarrow> outcome" where
  "handlePost sys res req path pathInfo =
     (if \<not> is_flushWriter res then Panic
      else execCmd sys (Live res) req path pathInfo RequestBody FlushWriterWrapper False)"

text \<open>
  \<open>handleWs\<close>. \<open>websocket.Handler(handler).ServeHTTP\<close> hijacks the connection, which
  the writer of the HTTP/1 server that \<open>main\<close> starts allows, does the handshake, and
  calls \<open>handler\<close>, which is \<open>execCmd\<close> on the connection, only when it has accepted the
  handshake; by then \<open>res\<close> is a hijacked writer.
\<close>

definition handleWs ::
  "system \<Rightarrow> ResponseWriter \<Rightarrow> request \<Rightarrow> os_File \<Rightarrow> FileMode \<Rightarrow> outcome" where
  "handleWs sys res req path pathInfo =
     (case WebSocketRefusal req of
        Some status \<Rightarrow> Refused status
      | None \<Rightarrow> execCmd sys (Hijacked res) req path pathInfo WebsocketConn WebsocketConn True)"

section \<open>Routing and authorization\<close>

definition handleAny :: "system \<Rightarrow> ResponseWriter \<Rightarrow> request \<Rightarrow> outcome" where
  "handleAny sys res req =
     (case Open sys (URL_Path req) of
        None \<Rightarrow> Blocked
      | Some (Inl err) \<Rightarrow>
          if err = ENOENT then handleError (Live res) (Some (PathError err)) 404 ''File not found''
          else handleError (Live res) (Some (PathError err)) 400 ''Error reading path''
      | Some (Inr path) \<Rightarrow>
          (case file_Stat path of
             Inl err \<Rightarrow>
               handleError (Live res) (Some (PathError err)) 500 ''Error reading path info''
           | Inr pathInfo \<Rightarrow>
               if strings_HasPrefix (Get (Header req) ''Origin'') ''ws://''
               then handleWs sys res req path pathInfo
               else if Method req = ''GET'' then HandleGet path pathInfo
               else if Method req = ''POST'' then handlePost sys res req path pathInfo
               else Response 405 (Text ''Only GET and POST supported'')))"

definition handleExit :: "ResponseWriter \<Rightarrow> request \<Rightarrow> outcome" where
  "handleExit res req =
     (let c = Get (URL_Query req) ''code''
      in Exit (if c \<noteq> [] then (case strconv_Atoi c of None \<Rightarrow> 1 | Some code \<Rightarrow> code) else 0))"

text \<open>The three package variables that \<open>init\<close> sets from \<open>BASIC_AUTH\<close>.\<close>

record config =
  requireBasicAuth :: bool
  authUser :: string
  authPassword :: string

definition init :: "string list \<Rightarrow> config" where
  "init environ =
     (let basicAuth = os_Getenv environ ''BASIC_AUTH''
      in if basicAuth \<noteq> [] then
           (let bits = strings_SplitN2 basicAuth CHR '':''
            in \<lparr>requireBasicAuth = True, authUser = hd bits,
                authPassword = (if length bits = 2 then bits ! 1 else [])\<rparr>)
         else \<lparr>requireBasicAuth = False, authUser = [], authPassword = []\<rparr>)"

definition authorize ::
  "config \<Rightarrow> (ResponseWriter \<Rightarrow> request \<Rightarrow> outcome) \<Rightarrow> ResponseWriter \<Rightarrow> request \<Rightarrow> outcome" where
  "authorize cfg handler res req =
     (if requireBasicAuth cfg then
        (case BasicAuth req of
           None \<Rightarrow>
             handleError (Live res) (Some (Errorf ''Authorization Required'')) 401
               ''Not Authorized''
         | Some (user, pass) \<Rightarrow>
             if user \<noteq> authUser cfg \<or> pass \<noteq> authPassword cfg
             then handleError (Live res) (Some (Errorf ''Not Authorized'')) 401 ''Not Authorized''
             else handler res req)
      else handler res req)"

text \<open>
  The two routes that \<open>main\<close> registers: the pattern \<open>/>/exit\<close> matches that path alone, the
  pattern \<open>/\<close> every other one. The redirects with which the multiplexer itself answers a
  path that is not in its clean form reach no handler and are left out.
\<close>

definition route ::
  "(ResponseWriter \<Rightarrow> request \<Rightarrow> outcome) \<Rightarrow> (ResponseWriter \<Rightarrow> request \<Rightarrow> outcome) \<Rightarrow>
     ResponseWriter \<Rightarrow> request \<Rightarrow> outcome" where
  "route exit_handler any_handler res req =
     (if URL_Path req = ''/>/exit'' then exit_handler res req else any_handler res req)"

definition main :: "system \<Rightarrow> ResponseWriter \<Rightarrow> request \<Rightarrow> outcome" where
  "main sys =
     (let cfg = init (Environ sys)
      in route (authorize cfg handleExit) (authorize cfg (handleAny sys)))"

section \<open>Reference notions and sample inputs\<close>

text \<open>
  ASCII case conversion by table, to compare the arithmetic of \<open>upperCaseAndUnderscore\<close>
  against; a character outside the table is left as it is.
\<close>

definition ascii_upper :: "char \<Rightarrow> char" where
  "ascii_upper c =
     (case map_of (zip ''abcdefghijklmnopqrstuvwxyz'' ''ABCDEFGHIJKLMNOPQRSTUVWXYZ'') c of
        Some u \<Rightarrow> u | None \<Rightarrow> c)"

definition ascii_lower :: "char \<Rightarrow> char" where
  "ascii_lower c =
     (case map_of (zip ''ABCDEFGHIJKLMNOPQRSTUVWXYZ'' ''abcdefghijklmnopqrstuvwxyz'') c of
        Some l \<Rightarrow> l | None \<Rightarrow> c)"

text \<open>The program and the working directory of the child a handler ran, if it ran one.\<close>

definition process_image :: "outcome \<Rightarrow> string option" where
  "process_image out = (case out of Ran cmd \<Rightarrow> Some (Path cmd) | _ \<Rightarrow> None)"

definition working_directory :: "outcome \<Rightarrow> string option" where
  "working_directory out = (case out of Ran cmd \<Rightarrow> Some (Dir cmd) | _ \<Rightarrow> None)"

text \<open>
  A POST over TLS with a body of twelve bytes, for an executable \<open>/srv/run.sh\<close> that is
  also reachable through the symbolic link \<open>/opt/latest\<close>; the server was started with
  \<open>BASIC_AUTH=admin:secret\<close>.
\<close>

definition sample_request :: request where
  "sample_request =
     \<lparr>Method = ''POST'', Host = ''localhost:5000'', RemoteAddr = ''127.0.0.1:40000'',
      URL_Path = ''/srv/run.sh'', URL_RawQuery = [], URL_RequestURI = ''/srv/run.sh'',
      URL_Query = [], TLS = True,
      Header = [(''Content-Type'', [''text/plain'']), (''Cookie'', [''a=1'', ''b=2'']),
                (''Accept'', [''text/html'', ''*/*'']), (''X.Trace-Id'', [''k=v''])],
      ContentLength = 12, BasicAuth = Some (''admin'', ''guess''), WebSocketRefusal = None\<rparr>"

text \<open>
  The sample file system: besides these, the character device \<open>/dev/null\<close>, the socket
  \<open>/run/app.sock\<close> and two FIFOs under \<open>/run\<close>, of which only \<open>/run/events\<close> has a writer.
  Nothing is denied to the server.
\<close>

definition sample_nodes :: "location \<Rightarrow> node option" where
  "sample_nodes =
     [[] \<mapsto> Inode Directory 493,
      [''srv''] \<mapsto> Inode Directory 493, [''srv'', ''run.sh''] \<mapsto> Inode Regular 493,
      [''srv'', ''notes.txt''] \<mapsto> Inode Regular 420,
      [''opt''] \<mapsto> Inode Directory 493, [''opt'', ''latest''] \<mapsto> Link ''/srv/run.sh'',
      [''run.sh''] \<mapsto> Inode Regular 493,
      [''dev''] \<mapsto> Inode Directory 493, [''dev'', ''null''] \<mapsto> Inode CharDevice 438,
      [''run''] \<mapsto> Inode Directory 493, [''run'', ''app.sock''] \<mapsto> Inode Socket 493,
      [''run'', ''events''] \<mapsto> Inode NamedPipe 420, [''run'', ''idle''] \<mapsto> Inode NamedPipe 420]"

definition sample_files :: filesystem where
  "sample_files =
     \<lparr>nodes = sample_nodes, denied = (\<lambda>q. False), writers = (\<lambda>q. q = [''run'', ''events'']),
      cwd = [''app'']\<rparr>"

definition sample_file :: os_File where
  "sample_file = \<lparr>file_Name = ''/srv/run.sh'', file_Stat = Inr 493\<rparr>"

definition sample_system :: system where
  "sample_system =
     \<lparr>Environ = [''PATH=/usr/bin'', ''BASIC_AUTH=admin:secret''], Getwd = Inr ''/app'',
      Open = os_Open sample_files\<rparr>"

section \<open>Header names\<close>

lemma upperCaseAndUnderscore_cases:
  "upperCaseAndUnderscore r =
     (if 97 \<le> (of_char r :: nat) \<and> (of_char r :: nat) \<le> 122
      then char_of ((of_char r :: nat) - 32)
      else if r = CHR ''-'' \<or> r = CHR ''='' then CHR ''_'' else r)"
  by (simp add: upperCaseAndUnderscore_def)

lemma lower_case_letters:
  "map char_of [97 ..< 123 :: nat] = ''abcdefghijklmnopqrstuvwxyz''"
  by (simp add: upt_rec char_of_eq_iff take_bit_eq_mod)

lemma lower_case_range:
  "(97 \<le> (of_char r :: nat) \<and> (of_char r :: nat) \<le> 122)
     = (r \<in> set ''abcdefghijklmnopqrstuvwxyz'')"
proof
  assume a: "97 \<le> (of_char r :: nat) \<and> (of_char r :: nat) \<le> 122"
  then have "(of_char r :: nat) \<in> {97 ..< 123}"
    by auto
  then have "(of_char r :: nat) \<in> set [97 ..< 123]"
    by (simp only: set_upt)
  then have "char_of (of_char r :: nat) \<in> set (map char_of [97 ..< 123 :: nat])"
    by (simp only: set_map) (rule imageI)
  then show "r \<in> set ''abcdefghijklmnopqrstuvwxyz''"
    by (simp only: lower_case_letters char_of_char)
next
  assume "r \<in> set ''abcdefghijklmnopqrstuvwxyz''"
  then show "97 \<le> (of_char r :: nat) \<and> (of_char r :: nat) \<le> 122"
    by auto
qed

lemma upperCaseAndUnderscore_table:
  "upperCaseAndUnderscore r =
     (if r = CHR ''-'' \<or> r = CHR ''='' then CHR ''_'' else ascii_upper r)"
  unfolding upperCaseAndUnderscore_cases lower_case_range
  by (auto simp: ascii_upper_def char_of_eq_iff take_bit_eq_mod)

lemma upperCaseAndUnderscore_not_equals: "upperCaseAndUnderscore r \<noteq> CHR ''=''"
  unfolding upperCaseAndUnderscore_table by (auto simp: ascii_upper_def)

lemma upperCaseAndUnderscore_not_folded:
  "upperCaseAndUnderscore r \<notin> set ''abcdefghijklmnopqrstuvwxyz-=''"
  unfolding upperCaseAndUnderscore_table by (auto simp: ascii_upper_def)

lemma folded_name_no_equals: "CHR ''='' \<notin> set (strings_Map upperCaseAndUnderscore k)"
proof
  assume "CHR ''='' \<in> set (strings_Map upperCaseAndUnderscore k)"
  then obtain x where "upperCaseAndUnderscore x = CHR ''=''"
    by (auto simp: strings_Map_def)
  then show False
    by (simp add: upperCaseAndUnderscore_not_equals)
qed

lemma folded_letters:
  "upperCaseAndUnderscore r = CHR ''C'' \<longleftrightarrow> ascii_lower r = CHR ''c''"
  "upperCaseAndUnderscore r = CHR ''O'' \<longleftrightarrow> ascii_lower r = CHR ''o''"
  "upperCaseAndUnderscore r = CHR ''K'' \<longleftrightarrow> ascii_lower r = CHR ''k''"
  "upperCaseAndUnderscore r = CHR ''I'' \<longleftrightarrow> ascii_lower r = CHR ''i''"
  "upperCaseAndUnderscore r = CHR ''E'' \<longleftrightarrow> ascii_lower r = CHR ''e''"
  unfolding upperCaseAndUnderscore_table
  by (auto simp: ascii_upper_def ascii_lower_def)

lemma folded_COOKIE:
  "strings_Map upperCaseAndUnderscore k = ''COOKIE'' \<longleftrightarrow> map ascii_lower k = ''cookie''"
  unfolding strings_Map_def by (simp add: map_eq_Cons_conv folded_letters)

section \<open>The entries of the environment\<close>

lemma header_loop_append:
  "header_loop env h = env @ map (\<lambda>(k, v). header_entry k v) h"
  by (induction h arbitrary: env) auto

lemma env_key_append:
  "CHR ''='' \<notin> set k \<Longrightarrow> env_key (k @ CHR ''='' # v) = k"
  by (induction k) (auto simp: env_key_def)

lemma env_value_append:
  "CHR ''='' \<notin> set k \<Longrightarrow> env_value (k @ CHR ''='' # v) = v"
  by (induction k) (auto simp: env_value_def)

lemma env_key_header_entry:
  "env_key (header_entry k v) = ''HTTP_'' @ strings_Map upperCaseAndUnderscore k"
proof -
  have "CHR ''='' \<notin> set (''HTTP_'' @ strings_Map upperCaseAndUnderscore k)"
    using folded_name_no_equals [of k] by simp
  from env_key_append [OF this] show ?thesis
    by (simp add: header_entry_def Let_def)
qed

lemma env_value_header_entry:
  "env_value (header_entry k v) =
     strings_Join v (if strings_Map upperCaseAndUnderscore k = ''COOKIE'' then ''; '' else '', '')"
proof -
  have "CHR ''='' \<notin> set (''HTTP_'' @ strings_Map upperCaseAndUnderscore k)"
    using folded_name_no_equals [of k] by simp
  from env_value_append [OF this] show ?thesis
    by (simp add: header_entry_def Let_def)
qed

lemma cgiEnv_parts:
  "cgiEnv environ req =
     fixed_env environ req @ (if TLS req then [''HTTPS=on''] else [])
       @ map (\<lambda>(k, v). header_entry k v) (Header req)
       @ (if ContentLength req > 0 then [''CONTENT_LENGTH='' @ Sprintf_d (ContentLength req)]
          else [])
       @ (if Get (Header req) ''Content-Type'' \<noteq> []
          then [''CONTENT_TYPE='' @ Get (Header req) ''Content-Type''] else [])"
  by (simp add: cgiEnv_def Let_def header_loop_append)

lemma header_entry_in_cgiEnv:
  "(k, v) \<in> set (Header req) \<Longrightarrow> header_entry k v \<in> set (cgiEnv environ req)"
  unfolding cgiEnv_parts by force


lemma fixed_env_keys:
  "map env_key (fixed_env environ req) =
     [''SERVER_SOFTWARE'', ''SERVER_NAME'', ''SERVER_PROTOCOL'', ''HTTP_HOST'',
      ''GATEWAY_INTERFACE'', ''REQUEST_METHOD'', ''QUERY_STRING'', ''REQUEST_URI'',
      ''PATH_INFO'', ''SCRIPT_NAME'', ''SCRIPT_FILENAME'', ''REMOTE_ADDR'', ''REMOTE_HOST'',
      ''SERVER_PORT'']"
  by (simp add: fixed_env_def env_key_def)

lemma fixed_env_key_cases:
  assumes "e \<in> set (fixed_env environ req)"
  shows "env_key e \<noteq> ''HTTPS''" and "env_key e \<noteq> ''CONTENT_LENGTH''"
proof -
  from assms have "env_key e \<in> set (map env_key (fixed_env environ req))"
    by simp
  then show "env_key e \<noteq> ''HTTPS''" and "env_key e \<noteq> ''CONTENT_LENGTH''"
    unfolding fixed_env_keys by auto
qed

lemma header_entry_key_cases:
  "env_key (header_entry k v) \<noteq> ''HTTPS''" "env_key (header_entry k v) \<noteq> ''CONTENT_LENGTH''"
  by (simp_all add: env_key_header_entry)

lemma dedicated_keys:
  "env_key ''HTTPS=on'' = ''HTTPS''"
  "env_key (''CONTENT_LENGTH='' @ n) = ''CONTENT_LENGTH''"
  "env_key (''CONTENT_TYPE='' @ t) = ''CONTENT_TYPE''"
  by (simp_all add: env_key_def)

lemma cgiEnv_member:
  "e \<in> set (cgiEnv environ req) \<longleftrightarrow>
     e \<in> set (fixed_env environ req) \<or> (TLS req \<and> e = ''HTTPS=on'')
     \<or> (\<exists>k v. (k, v) \<in> set (Header req) \<and> e = header_entry k v)
     \<or> (0 < ContentLength req \<and> e = ''CONTENT_LENGTH='' @ Sprintf_d (ContentLength req))
     \<or> (Get (Header req) ''Content-Type'' \<noteq> []
          \<and> e = ''CONTENT_TYPE='' @ Get (Header req) ''Content-Type'')"
  unfolding cgiEnv_parts by (simp only: set_append Un_iff set_map image_iff split: if_split) force

lemma cgiEnv_cases:
  assumes "e \<in> set (cgiEnv environ req)"
  obtains (fixed) "e \<in> set (fixed_env environ req)"
  | (https) "TLS req" "e = ''HTTPS=on''" "env_key e = ''HTTPS''"
  | (header) k v where "(k, v) \<in> set (Header req)" "e = header_entry k v"
  | (clen) "0 < ContentLength req" "env_key e = ''CONTENT_LENGTH''"
  | (ctype) "env_key e = ''CONTENT_TYPE''"
proof -
  from assms consider "e \<in> set (fixed_env environ req)"
    | "TLS req" "e = ''HTTPS=on''"
    | k v where "(k, v) \<in> set (Header req)" "e = header_entry k v"
    | "0 < ContentLength req" "e = ''CONTENT_LENGTH='' @ Sprintf_d (ContentLength req)"
    | "e = ''CONTENT_TYPE='' @ Get (Header req) ''Content-Type''"
    unfolding cgiEnv_member by blast
  then show thesis
  proof cases
    case 1
    then show ?thesis by (rule fixed)
  next
    case 2
    from 2(2) have "env_key e = env_key ''HTTPS=on''" by (simp only:)
    with 2 show ?thesis by (simp only: dedicated_keys https)
  next
    case (3 k v)
    then show ?thesis by (rule header)
  next
    case 4
    from 4(2) have "env_key e = env_key (''CONTENT_LENGTH='' @ Sprintf_d (ContentLength req))"
      by (simp only:)
    with 4 show ?thesis by (simp only: dedicated_keys clen)
  next
    case 5
    then have "env_key e = env_key (''CONTENT_TYPE='' @ Get (Header req) ''Content-Type'')"
      by (simp only:)
    then show ?thesis by (simp only: dedicated_keys ctype)
  qed
qed

section \<open>Properties of the environment\<close>

text \<open>
  C4. Reading an entry's key as what stands before its first \<open>=\<close>: the environment that
  \<open>cgiEnv\<close> builds has an entry with the key \<open>CONTENT_LENGTH\<close> exactly when the request's
  declared content length is greater than zero, and an entry with the key \<open>HTTPS\<close> exactly
  when the connection used TLS; an entry with the key \<open>HTTPS\<close> is \<open>HTTPS=on\<close>.
\<close>

theorem cgiEnv_CONTENT_LENGTH_HTTPS:
  "((\<exists>e \<in> set (cgiEnv environ req). env_key e = ''CONTENT_LENGTH'') \<longleftrightarrow> 0 < ContentLength req)
   \<and> ((\<exists>e \<in> set (cgiEnv environ req). env_key e = ''HTTPS'') \<longleftrightarrow> TLS req)
   \<and> (\<forall>e \<in> set (cgiEnv environ req). env_key e = ''HTTPS'' \<longrightarrow> e = ''HTTPS=on'')"
proof (intro conjI iffI ballI impI)
  assume "\<exists>e \<in> set (cgiEnv environ req). env_key e = ''CONTENT_LENGTH''"
  then obtain e where e: "e \<in> set (cgiEnv environ req)" and k: "env_key e = ''CONTENT_LENGTH''"
    by blast
  from e show "0 < ContentLength req"
    using k fixed_env_key_cases(2) [of e environ req] header_entry_key_cases(2)
    by (cases rule: cgiEnv_cases) simp_all
next
  assume "0 < ContentLength req"
  then have "''CONTENT_LENGTH='' @ Sprintf_d (ContentLength req) \<in> set (cgiEnv environ req)"
    unfolding cgiEnv_member by simp
  then show "\<exists>e \<in> set (cgiEnv environ req). env_key e = ''CONTENT_LENGTH''"
    using dedicated_keys(2) by blast
next
  assume "\<exists>e \<in> set (cgiEnv environ req). env_key e = ''HTTPS''"
  then obtain e where e: "e \<in> set (cgiEnv environ req)" and k: "env_key e = ''HTTPS''"
    by blast
  from e show "TLS req"
    using k fixed_env_key_cases(1) [of e environ req] header_entry_key_cases(1)
    by (cases rule: cgiEnv_cases) simp_all
next
  assume "TLS req"
  then have "''HTTPS=on'' \<in> set (cgiEnv environ req)"
    unfolding cgiEnv_member by simp
  then show "\<exists>e \<in> set (cgiEnv environ req). env_key e = ''HTTPS''"
    using dedicated_keys(1) by blast
next
  fix e
  assume e: "e \<in> set (cgiEnv environ req)" and k: "env_key e = ''HTTPS''"
  from e show "e = ''HTTPS=on''"
    using k fixed_env_key_cases(1) [of e environ req] header_entry_key_cases(1)
    by (cases rule: cgiEnv_cases) simp_all
qed


text \<open>The sample request came over TLS and declares twelve bytes of body.\<close>

theorem cgiEnv_CONTENT_LENGTH_HTTPS_witness:
  "''HTTPS=on'' \<in> set (cgiEnv (Environ sample_system) sample_request)
   \<and> (\<exists>e \<in> set (cgiEnv (Environ sample_system) sample_request). env_key e = ''CONTENT_LENGTH'')"
proof -
  note t = cgiEnv_CONTENT_LENGTH_HTTPS [of "Environ sample_system" sample_request]
  have "TLS sample_request" and "0 < ContentLength sample_request"
    by (simp_all add: sample_request_def)
  with t show ?thesis by blast
qed

text \<open>
  C5. Every header of the request gives the entry \<open>HTTP_\<close>, its folded name, \<open>=\<close> and
  its values joined: with \<open>; \<close> between them when the name is \<open>cookie\<close> in any mix of
  upper and lower case, and with \<open>, \<close> for every other name.
\<close>

theorem header_values_joined:
  "(k, v) \<in> set (Header req) \<Longrightarrow>
     ''HTTP_'' @ strings_Map upperCaseAndUnderscore k @ ''=''
       @ strings_Join v (if map ascii_lower k = ''cookie'' then ''; '' else '', '')
     \<in> set (cgiEnv environ req)"
  using header_entry_in_cgiEnv [of k v req environ]
  by (simp add: header_entry_def Let_def folded_COOKIE)

lemma sample_names:
  "strings_Map upperCaseAndUnderscore ''Cookie'' = ''COOKIE''"
  "strings_Map upperCaseAndUnderscore ''Accept'' = ''ACCEPT''"
  "strings_Map upperCaseAndUnderscore ''Content-Type'' = ''CONTENT_TYPE''"
  "strings_Map upperCaseAndUnderscore ''X.Trace-Id'' = ''X.TRACE_ID''"
  by (simp_all add: strings_Map_def upperCaseAndUnderscore_cases char_of_eq_iff take_bit_eq_mod)

text \<open>A \<open>Cookie\<close> and an \<open>Accept\<close> header of two values each.\<close>

theorem header_values_joined_witness:
  "''HTTP_COOKIE=a=1; b=2'' \<in> set (cgiEnv [] sample_request)
   \<and> ''HTTP_ACCEPT=text/html, */*'' \<in> set (cgiEnv [] sample_request)"
proof -
  have c: "(''Cookie'', [''a=1'', ''b=2'']) \<in> set (Header sample_request)"
    and a: "(''Accept'', [''text/html'', ''*/*'']) \<in> set (Header sample_request)"
    by (simp_all add: sample_request_def)
  from header_values_joined [OF c, of "[]"] header_values_joined [OF a, of "[]"]
  show ?thesis
    by (simp add: sample_names ascii_lower_def)
qed

text \<open>
  A header name with a dot: the dot is still there in the key, although it is neither a
  letter nor a digit.
\<close>

theorem folded_name_keeps_dot:
  "env_key (header_entry ''X.Trace-Id'' [''k=v'']) = ''HTTP_X.TRACE_ID''"
  by (simp add: env_key_header_entry sample_names)

text \<open>
  C6, as the code has it. Folding a header name turns each of the letters \<open>a\<close> to \<open>z\<close>
  into its capital and each \<open>-\<close> and \<open>=\<close> into an underscore, so that none of these
  is left in the folded name; it leaves every other character as it is, a dot or any
  other punctuation included. The key of the entry is \<open>HTTP_\<close> and the folded name.
\<close>

theorem folded_header_name:
  "strings_Map upperCaseAndUnderscore k =
     map (\<lambda>c. if c = CHR ''-'' \<or> c = CHR ''='' then CHR ''_'' else ascii_upper c) k
   \<and> set (strings_Map upperCaseAndUnderscore k) \<inter> set ''abcdefghijklmnopqrstuvwxyz-='' = {}
   \<and> env_key (header_entry k v) = ''HTTP_'' @ strings_Map upperCaseAndUnderscore k"
proof (intro conjI)
  show "strings_Map upperCaseAndUnderscore k =
     map (\<lambda>c. if c = CHR ''-'' \<or> c = CHR ''='' then CHR ''_'' else ascii_upper c) k"
    by (simp add: strings_Map_def upperCaseAndUnderscore_table)
  have "c \<in> set (strings_Map upperCaseAndUnderscore k) \<Longrightarrow>
      c \<notin> set ''abcdefghijklmnopqrstuvwxyz-=''" for c
    using upperCaseAndUnderscore_not_folded by (auto simp only: strings_Map_def set_map)
  then show "set (strings_Map upperCaseAndUnderscore k)
      \<inter> set ''abcdefghijklmnopqrstuvwxyz-='' = {}"
    by blast
  show "env_key (header_entry k v) = ''HTTP_'' @ strings_Map upperCaseAndUnderscore k"
    by (rule env_key_header_entry)
qed

text \<open>A lower-case name with a dot, a hyphen and an equals sign.\<close>

theorem folded_header_name_witness:
  "strings_Map upperCaseAndUnderscore ''x.trace-id=1'' = ''X.TRACE_ID_1''
   \<and> env_key (header_entry ''x.trace-id=1'' [''v'']) = ''HTTP_X.TRACE_ID_1''"
  using folded_header_name [of "''x.trace-id=1''" "[''v'']"]
  by (simp add: ascii_upper_def)

text \<open>
  A header value with an equals sign: it reaches the environment unchanged, so the entry
  has two of them.
\<close>

theorem header_value_keeps_equals:
  "''HTTP_X.TRACE_ID=k=v'' \<in> set (cgiEnv [] sample_request)"
proof -
  have "(''X.Trace-Id'', [''k=v'']) \<in> set (Header sample_request)"
    by (simp add: sample_request_def)
  from header_entry_in_cgiEnv [OF this, of "[]"] show ?thesis
    by (simp add: header_entry_def sample_names)
qed

text \<open>
  C7, as the code has it. Only the name of a header is folded. The entry of a header is in
  the environment; its folded name has no \<open>=\<close>, so the first \<open>=\<close> of the entry is the
  separator and the key is \<open>HTTP_\<close> and the folded name; what follows the separator is
  the header's values joined and nothing else, a single value exactly as it came, with
  every \<open>=\<close> it has.
\<close>

theorem header_entry_key_value:
  "(k, v) \<in> set (Header req) \<Longrightarrow>
     header_entry k v \<in> set (cgiEnv environ req)
     \<and> CHR ''='' \<notin> set (strings_Map upperCaseAndUnderscore k)
     \<and> env_key (header_entry k v) = ''HTTP_'' @ strings_Map upperCaseAndUnderscore k
     \<and> env_value (header_entry k v) =
         strings_Join v (if strings_Map upperCaseAndUnderscore k = ''COOKIE'' then ''; '' else '', '')
     \<and> env_value (header_entry k [x]) = x"
  by (simp add: header_entry_in_cgiEnv folded_name_no_equals env_key_header_entry
      env_value_header_entry)

text \<open>The header \<open>X.Trace-Id: k=v\<close> of the sample request.\<close>

theorem header_entry_key_value_witness:
  "header_entry ''X.Trace-Id'' [''k=v''] \<in> set (cgiEnv [] sample_request)
   \<and> env_key (header_entry ''X.Trace-Id'' [''k=v'']) = ''HTTP_X.TRACE_ID''
   \<and> env_value (header_entry ''X.Trace-Id'' [''k=v'']) = ''k=v''"
proof -
  have "(''X.Trace-Id'', [''k=v'']) \<in> set (Header sample_request)"
    by (simp add: sample_request_def)
  from header_entry_key_value [OF this, of "[]" "''k=v''"] show ?thesis
    by (simp add: sample_names)
qed

text \<open>
  C10. When the request has a \<open>Content-Type\<close> header whose first value \<open>v\<close> is not
  empty, the environment ends with the entry \<open>CONTENT_TYPE=v\<close>, and before it stands the
  entry \<open>HTTP_CONTENT_TYPE\<close> that the loop over the headers made, with all the values of
  the header joined by \<open>, \<close>: for a header of one value, the same \<open>v\<close>.
\<close>

theorem content_type_twice:
  "map_of (Header req) ''Content-Type'' = Some (v # vs) \<Longrightarrow> v \<noteq> [] \<Longrightarrow>
     \<exists>pre. cgiEnv environ req = pre @ [''CONTENT_TYPE='' @ v]
       \<and> ''HTTP_CONTENT_TYPE='' @ strings_Join (v # vs) '', '' \<in> set pre"
proof -
  assume m: "map_of (Header req) ''Content-Type'' = Some (v # vs)" and v: "v \<noteq> []"
  let ?pre = "fixed_env environ req @ (if TLS req then [''HTTPS=on''] else [])
       @ map (\<lambda>(k, v). header_entry k v) (Header req)
       @ (if ContentLength req > 0 then [''CONTENT_LENGTH='' @ Sprintf_d (ContentLength req)]
          else [])"
  from m have g: "Get (Header req) ''Content-Type'' = v"
    by (simp add: Get_def)
  from m have "(''Content-Type'', v # vs) \<in> set (Header req)"
    by (rule map_of_SomeD)
  then have "header_entry ''Content-Type'' (v # vs) \<in> set ?pre"
    by force
  moreover have "header_entry ''Content-Type'' (v # vs)
      = ''HTTP_CONTENT_TYPE='' @ strings_Join (v # vs) '', ''"
    by (simp add: header_entry_def sample_names)
  moreover have "cgiEnv environ req = ?pre @ [''CONTENT_TYPE='' @ v]"
    unfolding cgiEnv_parts g using v by simp
  ultimately show ?thesis
    by (intro exI [of _ ?pre]) (simp only: simp_thms)
qed

text \<open>The sample request has \<open>Content-Type: text/plain\<close>.\<close>

theorem content_type_twice_witness:
  "\<exists>pre. cgiEnv [] sample_request = pre @ [''CONTENT_TYPE=text/plain'']
     \<and> ''HTTP_CONTENT_TYPE=text/plain'' \<in> set pre"
proof -
  have "map_of (Header sample_request) ''Content-Type'' = Some [''text/plain'']"
    by (simp add: sample_request_def)
  from content_type_twice [OF this, of "[]"] show ?thesis
    by simp
qed

section \<open>Facts about file modes\<close>

lemmas mode_defs = ModeDir_def ModeSymlink_def ModeDevice_def ModeNamedPipe_def ModeSocket_def
  ModeSetuid_def ModeSetgid_def ModeCharDevice_def ModeSticky_def ModeIrregular_def ModeType_def

lemma and_zero_mask:
  fixes m :: "32 word"
  assumes "m AND t = 0" and "x AND t = x"
  shows "m AND x = 0"
proof -
  have "m AND x = m AND (x AND t)" using assms(2) by simp
  also have "\<dots> = (m AND t) AND x" by (simp add: ac_simps)
  also have "\<dots> = 0" using assms(1) by simp
  finally show ?thesis .
qed

lemma IsRegular_not_IsDir: "IsRegular m \<Longrightarrow> \<not> IsDir m"
  unfolding IsRegular_def IsDir_def
  by (simp add: and_zero_mask [where t = ModeType] mode_defs)

lemma fileMode_perm: "fileMode t p AND 72 = p AND 72"
  by (cases t) (simp_all add: fileMode_def mode_defs bit.conj_disj_distrib2 and.assoc)

lemma fileMode_IsDir: "IsDir (fileMode t p) \<longleftrightarrow> t = Directory"
  by (cases t) (simp_all add: IsDir_def fileMode_def mode_defs bit.conj_disj_distrib2 and.assoc)

lemma fileMode_IsRegular: "IsRegular (fileMode t p) \<longleftrightarrow> t = Regular"
  by (cases t) (simp_all add: IsRegular_def fileMode_def mode_defs bit.conj_disj_distrib2 and.assoc)


section \<open>Running a file or a shell\<close>

lemma strings_LastIndex_nonneg: "c \<in> set s \<Longrightarrow> 0 \<le> strings_LastIndex s c"
proof -
  assume c: "c \<in> set s"
  have "c \<in> set xs \<Longrightarrow> length (takeWhile (\<lambda>x. x \<noteq> c) xs) < length xs" for xs
    by (induction xs) auto
  from this [of "rev s"] c show ?thesis by (simp add: strings_LastIndex_def)
qed

lemma strings_LastIndex_split:
  "c \<notin> set b \<Longrightarrow> strings_LastIndex (d @ c # b) c = int (length d)"
proof -
  assume b: "c \<notin> set b"
  have "c \<notin> set xs \<Longrightarrow> takeWhile (\<lambda>x. x \<noteq> c) (xs @ c # ys) = xs" for xs ys
    by (induction xs) auto
  from this [of "rev b" "rev d"] b
  have "takeWhile (\<lambda>x. x \<noteq> c) (rev b @ c # rev d) = rev b"
    by simp
  then show ?thesis by (simp add: strings_LastIndex_def)
qed

lemma execCmd_directory:
  "IsDir m \<Longrightarrow> execCmd sys w req path m inp out i =
     (if i then
        (case Getwd sys of
           Inl err \<Rightarrow> Fatal
         | Inr dir \<Rightarrow>
             run sys req inp out i (path_Join [dir, ''bin'', ''pseudo-interactive-bash''])
               (file_Name path))
      else run sys req inp out i ''bash'' (file_Name path))"
  by (simp add: execCmd_def)

lemma execCmd_executable:
  "IsRegular m \<Longrightarrow> m AND 72 \<noteq> 0 \<Longrightarrow> CHR ''/'' \<in> set (file_Name path) \<Longrightarrow>
     execCmd sys w req path m inp out i =
       run sys req inp out i (file_Name path)
         (take (nat (strings_LastIndex (file_Name path) CHR ''/'')) (file_Name path))"
  using strings_LastIndex_nonneg [of "CHR ''/''" "file_Name path"]
  by (simp add: execCmd_def IsRegular_not_IsDir Let_def)

lemma execCmd_rejected:
  "\<not> IsDir m \<Longrightarrow> \<not> (IsRegular m \<and> m AND 72 \<noteq> 0) \<Longrightarrow>
     execCmd sys w req path m inp out i = handleError w None 400 invalid_POST"
  by (auto simp: execCmd_def)

lemma run_Ran:
  "\<exists>cmd. run sys req inp out i name dir = Ran cmd \<and> Path cmd = name \<and> Dir cmd = dir
     \<and> Stdin cmd = inp \<and> Stdout cmd = out \<and> Stderr cmd = out"
  by (simp add: run_def Let_def)

lemma run_projections:
  "process_image (run sys req inp out i name dir) = Some name"
  "working_directory (run sys req inp out i name dir) = Some dir"
  by (simp_all add: run_def Let_def process_image_def working_directory_def)

lemma world_execute_only:
  fixes m :: "32 word"
  shows "m AND 73 = 1 \<Longrightarrow> m AND 72 = 0"
proof -
  assume a: "m AND 73 = 1"
  have "m AND 72 = (m AND 73) AND 72" by (simp add: and.assoc)
  also have "\<dots> = 0" by (simp add: a)
  finally show ?thesis .
qed

text \<open>
  C1. What \<open>execCmd\<close> does with an entry depends on its mode alone, for a POST as for a
  WebSocket. For a regular file whose name has a slash, as every request path has, it runs
  the file itself exactly when the mode has one of the owner-execute and group-execute
  bits (\<open>mode & 0110 != 0\<close>). A regular file without them, and so one with the
  world-execute bit as its only execute bit, is refused with the 400 for an invalid file
  type: a live writer, as a POST has, sends it, and on the hijacked writer of a WebSocket
  it stays unsent. A directory is treated as one whatever its other bits, as the bare mode
  \<open>ModeDir\<close> is: without the interactive flag \<open>bash\<close> is run in it, with the flag the
  \<open>pseudo-interactive-bash\<close> under the server's working directory is run in it, and when
  that working directory cannot be read \<open>log.Fatal\<close> ends the server in this branch.
  \<open>Stat\<close> gives a directory the directory bit and a regular file its permission bits
  unchanged.
\<close>

theorem execCmd_classification:
  "CHR ''/'' \<in> set (file_Name path) \<Longrightarrow>
     (IsRegular m \<longrightarrow>
        ((\<exists>cmd. execCmd sys w req path m inp out i = Ran cmd \<and> Path cmd = file_Name path)
           \<longleftrightarrow> m AND 72 \<noteq> 0))
     \<and> (IsRegular m \<and> (m AND 72 = 0 \<or> m AND 73 = 1) \<longrightarrow>
          execCmd sys (Live r) req path m inp out i
            = Response 400 (JSON \<lparr>Message = invalid_POST, Cause = None\<rparr>)
          \<and> execCmd sys (Hijacked r) req path m inp out i
            = Unsent 400 (JSON \<lparr>Message = invalid_POST, Cause = None\<rparr>))
     \<and> (IsDir m \<longrightarrow>
          execCmd sys w req path m inp out i = execCmd sys w req path ModeDir inp out i)
     \<and> (IsDir m \<and> \<not> i \<longrightarrow>
          (\<exists>cmd. execCmd sys w req path m inp out i = Ran cmd \<and> Path cmd = ''bash''
             \<and> Dir cmd = file_Name path))
     \<and> (IsDir m \<and> i \<and> Getwd sys = Inr dir \<longrightarrow>
          (\<exists>cmd. execCmd sys w req path m inp out i = Ran cmd
             \<and> Path cmd = path_Join [dir, ''bin'', ''pseudo-interactive-bash'']
             \<and> Dir cmd = file_Name path))
     \<and> (IsDir m \<and> i \<and> Getwd sys = Inl e \<longrightarrow> execCmd sys w req path m inp out i = Fatal)
     \<and> IsDir (fileMode Directory p) \<and> IsRegular (fileMode Regular p)
     \<and> fileMode Regular p AND 72 = p AND 72"
proof (intro conjI impI)
  assume s: "CHR ''/'' \<in> set (file_Name path)" and r: "IsRegular m"
  show "(\<exists>cmd. execCmd sys w req path m inp out i = Ran cmd \<and> Path cmd = file_Name path)
      \<longleftrightarrow> m AND 72 \<noteq> 0"
  proof (cases "m AND 72 = 0")
    case True
    with r show ?thesis
      by (cases w) (simp_all add: execCmd_rejected IsRegular_not_IsDir)
  next
    case False
    with r s run_Ran [of sys req inp out i "file_Name path"] show ?thesis
      by (simp add: execCmd_executable) blast
  qed
next
  assume a: "IsRegular m \<and> (m AND 72 = 0 \<or> m AND 73 = 1)"
  then have z: "m AND 72 = 0"
    using world_execute_only [of m] by blast
  from a z show "execCmd sys (Live r) req path m inp out i
      = Response 400 (JSON \<lparr>Message = invalid_POST, Cause = None\<rparr>)"
    by (simp add: execCmd_rejected IsRegular_not_IsDir)
  from a z show "execCmd sys (Hijacked r) req path m inp out i
      = Unsent 400 (JSON \<lparr>Message = invalid_POST, Cause = None\<rparr>)"
    by (simp add: execCmd_rejected IsRegular_not_IsDir)
next
  assume d: "IsDir m"
  have "IsDir ModeDir" by (simp add: IsDir_def ModeDir_def)
  with d show "execCmd sys w req path m inp out i = execCmd sys w req path ModeDir inp out i"
    by (simp add: execCmd_directory)
next
  assume "IsDir m \<and> \<not> i"
  with run_Ran [of sys req inp out i "''bash''" "file_Name path"]
  show "\<exists>cmd. execCmd sys w req path m inp out i = Ran cmd \<and> Path cmd = ''bash''
      \<and> Dir cmd = file_Name path"
    by (simp add: execCmd_directory) blast
next
  assume "IsDir m \<and> i \<and> Getwd sys = Inr dir"
  with run_Ran [of sys req inp out i "path_Join [dir, ''bin'', ''pseudo-interactive-bash'']"
      "file_Name path"]
  show "\<exists>cmd. execCmd sys w req path m inp out i = Ran cmd
      \<and> Path cmd = path_Join [dir, ''bin'', ''pseudo-interactive-bash'']
      \<and> Dir cmd = file_Name path"
    by (simp add: execCmd_directory) blast
next
  assume "IsDir m \<and> i \<and> Getwd sys = Inl e"
  then show "execCmd sys w req path m inp out i = Fatal"
    by (simp add: execCmd_directory)
next
  show "IsDir (fileMode Directory p)" by (simp add: fileMode_IsDir)
  show "IsRegular (fileMode Regular p)" by (simp add: fileMode_IsRegular)
  show "fileMode Regular p AND 72 = p AND 72" by (rule fileMode_perm)
qed

lemma sample_modes:
  "IsRegular 493" "(493 :: 32 word) AND 72 \<noteq> 0" "\<not> IsDir 493"
  "IsRegular 420" "(420 :: 32 word) AND 72 = 0" "\<not> IsDir 420"
  "IsRegular 1" "(1 :: 32 word) AND 73 = 1"
  "IsDir 0x800001C0" "fileMode Regular 493 = 493"
  by (simp_all add: IsRegular_def IsDir_def mode_defs fileMode_def)

text \<open>
  Modes \<open>0755\<close>, \<open>0644\<close> and \<open>0001\<close> of a regular file, and a directory of mode \<open>0700\<close>,
  for a POST and for a WebSocket.
\<close>

theorem execCmd_classification_witness:
  "process_image (execCmd sample_system (Live \<lparr>is_flushWriter = True\<rparr>) sample_request
      sample_file 493 RequestBody FlushWriterWrapper False) = Some ''/srv/run.sh''
   \<and> execCmd sample_system (Live \<lparr>is_flushWriter = True\<rparr>) sample_request sample_file 420
        RequestBody FlushWriterWrapper False
      = Response 400 (JSON \<lparr>Message = invalid_POST, Cause = None\<rparr>)
   \<and> execCmd sample_system (Hijacked \<lparr>is_flushWriter = True\<rparr>) sample_request sample_file 1
        WebsocketConn WebsocketConn True
      = Unsent 400 (JSON \<lparr>Message = invalid_POST, Cause = None\<rparr>)
   \<and> process_image (execCmd sample_system (Live \<lparr>is_flushWriter = True\<rparr>) sample_request
        sample_file 0x800001C0 RequestBody FlushWriterWrapper False) = Some ''bash''
   \<and> process_image (execCmd sample_system (Hijacked \<lparr>is_flushWriter = True\<rparr>) sample_request
        sample_file 0x800001C0 WebsocketConn WebsocketConn True)
      = Some ''/app/bin/pseudo-interactive-bash''"
proof -
  have s: "CHR ''/'' \<in> set (file_Name sample_file)"
    by (simp add: sample_file_def)
  have j: "path_Join [''/app'', ''bin'', ''pseudo-interactive-bash'']
      = ''/app/bin/pseudo-interactive-bash''"
    by (simp add: path_Join_def path_Clean_def)
  have g: "Getwd sample_system = Inr ''/app''"
    by (simp add: sample_system_def)
  note t = execCmd_classification [OF s, where sys = sample_system and req = sample_request
      and r = "\<lparr>is_flushWriter = True\<rparr>" and dir = "''/app''" and e = EIO and p = 493]
  note p = t [where w = "Live \<lparr>is_flushWriter = True\<rparr>" and inp = RequestBody
      and out = FlushWriterWrapper and i = False]
  note u = t [where w = "Hijacked \<lparr>is_flushWriter = True\<rparr>" and inp = WebsocketConn
      and out = WebsocketConn and i = True]
  from p [of 493] sample_modes(1,2)
  have "\<exists>cmd. execCmd sample_system (Live \<lparr>is_flushWriter = True\<rparr>)
      sample_request sample_file 493 RequestBody FlushWriterWrapper False = Ran cmd
      \<and> Path cmd = file_Name sample_file"
    by blast
  then have a: "process_image (execCmd sample_system (Live \<lparr>is_flushWriter = True\<rparr>)
      sample_request sample_file 493 RequestBody FlushWriterWrapper False) = Some ''/srv/run.sh''"
    by (auto simp: process_image_def sample_file_def)
  from p [of "0x800001C0"] sample_modes(9)
  have "\<exists>cmd. execCmd sample_system (Live \<lparr>is_flushWriter = True\<rparr>)
      sample_request sample_file 0x800001C0 RequestBody FlushWriterWrapper False = Ran cmd
      \<and> Path cmd = ''bash''"
    by blast
  then have b: "process_image (execCmd sample_system (Live \<lparr>is_flushWriter = True\<rparr>)
      sample_request sample_file 0x800001C0 RequestBody FlushWriterWrapper False) = Some ''bash''"
    by (auto simp: process_image_def)
  from u [of "0x800001C0"] sample_modes(9) g
  have "\<exists>cmd. execCmd sample_system
      (Hijacked \<lparr>is_flushWriter = True\<rparr>) sample_request sample_file 0x800001C0 WebsocketConn
      WebsocketConn True = Ran cmd
      \<and> Path cmd = path_Join [''/app'', ''bin'', ''pseudo-interactive-bash'']"
    by blast
  then have c: "process_image (execCmd sample_system (Hijacked \<lparr>is_flushWriter = True\<rparr>)
      sample_request sample_file 0x800001C0 WebsocketConn WebsocketConn True)
      = Some ''/app/bin/pseudo-interactive-bash''"
    by (auto simp: process_image_def j)
  from p [of 420] sample_modes(4,5)
  have d: "execCmd sample_system (Live \<lparr>is_flushWriter = True\<rparr>) sample_request sample_file 420
        RequestBody FlushWriterWrapper False
      = Response 400 (JSON \<lparr>Message = invalid_POST, Cause = None\<rparr>)"
    by blast
  from u [of 1] sample_modes(7,8)
  have e: "execCmd sample_system (Hijacked \<lparr>is_flushWriter = True\<rparr>) sample_request sample_file 1
        WebsocketConn WebsocketConn True
      = Unsent 400 (JSON \<lparr>Message = invalid_POST, Cause = None\<rparr>)"
    by blast
  from a b c d e show ?thesis
    by (simp only: simp_thms)
qed

section \<open>Opening a path\<close>











section \<open>The working directory\<close>

lemma execCmd_directory_Dir:
  "IsDir m \<Longrightarrow> Getwd sys = Inr dir \<or> \<not> i \<Longrightarrow>
     working_directory (execCmd sys w req path m inp out i) = Some (file_Name path)"
  by (auto simp: execCmd_directory run_projections)

lemma execCmd_executable_Dir:
  "IsRegular m \<Longrightarrow> m AND 72 \<noteq> 0 \<Longrightarrow> file_Name path = d @ CHR ''/'' # b \<Longrightarrow> CHR ''/'' \<notin> set b \<Longrightarrow>
     working_directory (execCmd sys w req path m inp out i) = Some d"
  by (simp add: execCmd_executable run_projections strings_LastIndex_split)

text \<open>
  C3. For a directory the working directory of the child is the directory, and for an
  executable \<open>d/b\<close> it is \<open>d\<close>, the two lemmas above. For an executable directly under
  the root, \<open>/run.sh\<close> of mode \<open>0755\<close>, that \<open>d\<close> is the empty string and not the root
  \<open>/\<close>: with an empty \<open>Dir\<close>, \<open>os/exec\<close> starts the child in the server's own
  current directory.
\<close>

theorem execCmd_root_executable_Dir:
  "working_directory
     (execCmd sys w req \<lparr>file_Name = ''/run.sh'', file_Stat = Inr 493\<rparr> 493 inp out i) = Some []"
  using execCmd_executable_Dir [of 493 "\<lparr>file_Name = ''/run.sh'', file_Stat = Inr 493\<rparr>" "[]"
      "''run.sh''" sys w req inp out i]
  by (simp add: sample_modes)

section \<open>Writing to the client\<close>

text \<open>
  A POST whose response writer has no \<open>Flush\<close> method: the handler panics, before any
  process is started.
\<close>

theorem handlePost_without_Flush_panics:
  "handlePost sample_system \<lparr>is_flushWriter = False\<rparr> sample_request sample_file 493 = Panic"
  by (simp add: handlePost_def)

lemma execCmd_streams:
  "execCmd sys w req path m inp out i = Ran cmd \<Longrightarrow> Stdout cmd = out \<and> Stderr cmd = out"
  by (cases w) (auto simp: execCmd_def run_def Let_def split: if_splits sum.splits)

text \<open>
  C8, as the code has it. \<open>flushWriterWrapper.Write\<close> calls \<open>Write\<close> and then \<open>Flush\<close> on
  the transport and returns what \<open>Write\<close> returned, whether the write succeeded or not:
  a transport that records its calls has received the write and then the flush, and
  nothing else. \<open>handlePost\<close> hands \<open>execCmd\<close> this wrapper as the child's standard
  output and standard error when the response writer has a \<open>Flush\<close> method; when it has
  none, \<open>handlePost\<close> panics instead of writing without flushing.
\<close>

theorem flushWriterWrapper_Write_flushes:
  "flushWriterWrapper_Write fw w p = (fst (Write fw w p), Flush fw (snd (Write fw w p)))
   \<and> flushWriterWrapper_Write (recorder accepts) log p
       = ((if accepts p then (length p, None) else (0, Some ''broken pipe'')),
          log @ [WriteCall p, FlushCall])
   \<and> (is_flushWriter res \<longrightarrow>
        handlePost sys res req path m
          = execCmd sys (Live res) req path m RequestBody FlushWriterWrapper False)
   \<and> (handlePost sys res req path m = Ran cmd \<longrightarrow>
        Stdout cmd = FlushWriterWrapper \<and> Stderr cmd = FlushWriterWrapper)
   \<and> (\<not> is_flushWriter res \<longrightarrow> handlePost sys res req path m = Panic)"
proof (intro conjI impI)
  show "flushWriterWrapper_Write fw w p = (fst (Write fw w p), Flush fw (snd (Write fw w p)))"
    by (simp add: flushWriterWrapper_Write_def split_beta)
  show "flushWriterWrapper_Write (recorder accepts) log p
       = ((if accepts p then (length p, None) else (0, Some ''broken pipe'')),
          log @ [WriteCall p, FlushCall])"
    by (simp add: flushWriterWrapper_Write_def recorder_def)
next
  assume "is_flushWriter res"
  then show "handlePost sys res req path m
      = execCmd sys (Live res) req path m RequestBody FlushWriterWrapper False"
    by (simp add: handlePost_def)
next
  assume r: "handlePost sys res req path m = Ran cmd"
  then have "execCmd sys (Live res) req path m RequestBody FlushWriterWrapper False = Ran cmd"
    by (simp add: handlePost_def split: if_splits)
  from execCmd_streams [OF this]
  show "Stdout cmd = FlushWriterWrapper" and "Stderr cmd = FlushWriterWrapper"
    by simp_all
next
  assume "\<not> is_flushWriter res"
  then show "handlePost sys res req path m = Panic"
    by (simp add: handlePost_def)
qed

text \<open>A transport that accepts writes of up to three bytes.\<close>

theorem flushWriterWrapper_Write_flushes_witness:
  "flushWriterWrapper_Write (recorder (\<lambda>p. length p < 4)) [] ''hi''
     = ((2, None), [WriteCall ''hi'', FlushCall])
   \<and> flushWriterWrapper_Write (recorder (\<lambda>p. length p < 4)) [WriteCall ''hi'', FlushCall] ''hello''
     = ((0, Some ''broken pipe''), [WriteCall ''hi'', FlushCall, WriteCall ''hello'', FlushCall])
   \<and> handlePost sample_system \<lparr>is_flushWriter = True\<rparr> sample_request sample_file 493
     = execCmd sample_system (Live \<lparr>is_flushWriter = True\<rparr>) sample_request sample_file 493
         RequestBody FlushWriterWrapper False
   \<and> handlePost sample_system \<lparr>is_flushWriter = False\<rparr> sample_request sample_file 420 = Panic"
  using flushWriterWrapper_Write_flushes [where fw = "recorder (\<lambda>p. True)" and w = "[FlushCall]"
      and accepts = "\<lambda>p. length p < 4" and log = "[]"
      and p = "''hi''" and res = "\<lparr>is_flushWriter = True\<rparr>" and sys = sample_system
      and req = sample_request and path = sample_file and m = 493
      and cmd = "\<lparr>Path = [], Dir = [], Env = [], Stdin = RequestBody, Stdout = RequestBody,
        Stderr = RequestBody\<rparr>"]
    flushWriterWrapper_Write_flushes [where fw = "recorder (\<lambda>p. True)" and w = "[FlushCall]"
      and accepts = "\<lambda>p. length p < 4" and log = "[WriteCall ''hi'', FlushCall]"
      and p = "''hello''" and res = "\<lparr>is_flushWriter = False\<rparr>" and sys = sample_system
      and req = sample_request and path = sample_file and m = 420
      and cmd = "\<lparr>Path = [], Dir = [], Env = [], Stdin = RequestBody, Stdout = RequestBody,
        Stderr = RequestBody\<rparr>"]
  by (simp add: numeral_2_eq_2)

section \<open>Authorization\<close>

lemma init_required:
  "os_Getenv environ ''BASIC_AUTH'' \<noteq> [] \<Longrightarrow> requireBasicAuth (init environ)"
  by (simp add: init_def Let_def)

lemma init_credentials:
  "os_Getenv environ ''BASIC_AUTH'' = user @ CHR '':'' # password \<Longrightarrow> CHR '':'' \<notin> set user \<Longrightarrow>
     init environ = \<lparr>requireBasicAuth = True, authUser = user, authPassword = password\<rparr>"
proof -
  assume e: "os_Getenv environ ''BASIC_AUTH'' = user @ CHR '':'' # password"
    and u: "CHR '':'' \<notin> set user"
  have "c \<notin> set xs \<Longrightarrow> takeWhile (\<lambda>x. x \<noteq> c) (xs @ c # ys) = xs
      \<and> dropWhile (\<lambda>x. x \<noteq> c) (xs @ c # ys) = c # ys" for c :: char and xs ys
    by (induction xs) auto
  from this [OF u, of password] e show ?thesis
    by (simp add: init_def Let_def strings_SplitN2_def)
qed

lemma authorize_unauthorized:
  "requireBasicAuth cfg \<Longrightarrow> BasicAuth req \<noteq> Some (authUser cfg, authPassword cfg) \<Longrightarrow>
     \<exists>c. \<forall>handler. authorize cfg handler res req
       = Response 401 (JSON \<lparr>Message = ''Not Authorized'', Cause = Some (Errorf c)\<rparr>)"
  by (cases "BasicAuth req") (auto simp: authorize_def)

text \<open>
  C9. When \<open>BASIC_AUTH\<close> was set at startup and the request does not carry the configured
  user and password, the server answers 401 with the JSON error whose message is
  \<open>Not Authorized\<close> on every path, the exit path included; \<open>authorize\<close> gives this answer
  whatever the handler it guards, so the handler is not run.
\<close>

theorem authorize_rejects:
  "os_Getenv (Environ sys) ''BASIC_AUTH'' \<noteq> [] \<Longrightarrow>
   BasicAuth req \<noteq> Some (authUser (init (Environ sys)), authPassword (init (Environ sys))) \<Longrightarrow>
     \<exists>c. main sys res req
            = Response 401 (JSON \<lparr>Message = ''Not Authorized'', Cause = Some (Errorf c)\<rparr>)
        \<and> (\<forall>handler. authorize (init (Environ sys)) handler res req
            = Response 401 (JSON \<lparr>Message = ''Not Authorized'', Cause = Some (Errorf c)\<rparr>))"
proof -
  assume e: "os_Getenv (Environ sys) ''BASIC_AUTH'' \<noteq> []"
    and b: "BasicAuth req
      \<noteq> Some (authUser (init (Environ sys)), authPassword (init (Environ sys)))"
  from authorize_unauthorized [OF init_required [OF e] b, of res]
  obtain c where c: "\<And>handler. authorize (init (Environ sys)) handler res req
       = Response 401 (JSON \<lparr>Message = ''Not Authorized'', Cause = Some (Errorf c)\<rparr>)"
    by blast
  have "main sys res req
      = Response 401 (JSON \<lparr>Message = ''Not Authorized'', Cause = Some (Errorf c)\<rparr>)"
    by (simp add: main_def Let_def route_def c)
  with c show ?thesis by blast
qed

lemma sample_config:
  "os_Getenv (Environ sample_system) ''BASIC_AUTH'' = ''admin:secret''"
  "init (Environ sample_system)
     = \<lparr>requireBasicAuth = True, authUser = ''admin'', authPassword = ''secret''\<rparr>"
proof -
  show e: "os_Getenv (Environ sample_system) ''BASIC_AUTH'' = ''admin:secret''"
    by (simp add: sample_system_def env_key_def env_value_def)
  from init_credentials [of "Environ sample_system" "''admin''" "''secret''"] e
  show "init (Environ sample_system)
     = \<lparr>requireBasicAuth = True, authUser = ''admin'', authPassword = ''secret''\<rparr>"
    by simp
qed

text \<open>
  The sample server has \<open>BASIC_AUTH=admin:secret\<close>; one request for the exit path with a
  wrong password, one for a file with no credentials.
\<close>

theorem authorize_rejects_witness:
  "(\<exists>c. main sample_system \<lparr>is_flushWriter = True\<rparr> (sample_request\<lparr>URL_Path := ''/>/exit''\<rparr>)
       = Response 401 (JSON \<lparr>Message = ''Not Authorized'', Cause = Some (Errorf c)\<rparr>))
   \<and> (\<exists>c. main sample_system \<lparr>is_flushWriter = True\<rparr> (sample_request\<lparr>BasicAuth := None\<rparr>)
       = Response 401 (JSON \<lparr>Message = ''Not Authorized'', Cause = Some (Errorf c)\<rparr>))"
proof -
  have "BasicAuth (sample_request\<lparr>URL_Path := ''/>/exit''\<rparr>)
      \<noteq> Some (authUser (init (Environ sample_system)), authPassword (init (Environ sample_system)))"
    and "BasicAuth (sample_request\<lparr>BasicAuth := None\<rparr>)
      \<noteq> Some (authUser (init (Environ sample_system)), authPassword (init (Environ sample_system)))"
    and "os_Getenv (Environ sample_system) ''BASIC_AUTH'' \<noteq> []"
    by (simp_all add: sample_config sample_request_def)
  from authorize_rejects [OF this(3) this(1)] authorize_rejects [OF this(3) this(2)]
  show ?thesis by blast
qed

end
